theory Spec2Isabelle
  imports Complex_Main
begin

section \<open>Gold-price dashboard: the fetcher\<close>

text \<open>
  The program is \<open>src/main.py\<close>: \<open>get_gold_data\<close> issues one HTTP GET, parses the JSON
  reply into two columns, and \<open>render_content\<close> (a Dash callback) renders a chart summary
  or a table of statistics from them.

  Python floats are idealised as real numbers (exact arithmetic); the one special float
  the program can produce on its own, NaN, is kept as a value of its own. The library
  calls (\<open>requests\<close>, \<open>datetime.strptime\<close>, \<open>pandas\<close> reductions) are modelled by their
  documented behaviour; \<open>requests\<close> is taken at version 2.27 or later, where the error
  of \<open>response.json()\<close> is a \<open>RequestException\<close>, and \<open>pandas\<close> before 3.0, where
  \<open>to_datetime\<close> yields nanosecond timestamps.
\<close>

subsection \<open>JSON values, exceptions and replies\<close>

datatype json =
    JNull
  | JBool bool
  | JNum real
  | JStr string
  | JArr "json list"
  | JObj "(string \<times> json) list"

text \<open>Exceptions that \<open>get_gold_data\<close> does not catch, so that they reach the caller.\<close>

datatype exn = KeyError | TypeError | ValueError | OutOfBoundsDatetime

text \<open>The subclasses of \<open>requests.exceptions.RequestException\<close> that the fetch can raise.\<close>

datatype req_exn = ConnectionError | HTTPError nat | JSONDecodeError

text \<open>
  What the network answers to a URL: nothing (\<open>requests.get\<close> raises), or a reply with a
  status code and a body; the body is \<open>None\<close> when it is not parseable JSON
  (\<open>response.json()\<close> raises) and the parsed value otherwise.
\<close>

datatype http_reply = NoReply | Reply nat "json option"

text \<open>The effects of a fetch: the URLs requested so far, and the lines printed.\<close>

record io =
  requested :: "string list"
  printed :: "req_exn list"

subsection \<open>Calendar dates and \<open>strptime(s, '%Y-%m-%d')\<close>\<close>

type_synonym pydate = "nat \<times> nat \<times> nat"

definition digit :: "char \<Rightarrow> nat option" where
  "digit c = (let n = (of_char c :: nat) in if 48 \<le> n \<and> n \<le> 57 then Some (n - 48) else None)"

definition is_leap :: "nat \<Rightarrow> bool" where
  "is_leap y = (if y mod 100 = 0 then y mod 400 = 0 else y mod 4 = 0)"

definition days_in_month :: "nat \<Rightarrow> nat \<Rightarrow> nat" where
  "days_in_month y m =
     (if m = 2 then (if is_leap y then 29 else 28)
      else if m = 4 \<or> m = 6 \<or> m = 9 \<or> m = 11 then 30 else 31)"

text \<open>The constructor \<open>date(year, month, day)\<close>: \<open>ValueError\<close> outside the calendar.\<close>

definition mk_date :: "nat \<Rightarrow> nat \<Rightarrow> nat \<Rightarrow> exn + pydate" where
  "mk_date y m d =
     (if 1 \<le> y \<and> y \<le> 9999 \<and> 1 \<le> m \<and> m \<le> 12 \<and> 1 \<le> d \<and> d \<le> days_in_month y m
      then Inr (y, m, d) else Inl ValueError)"

text \<open>The directive \<open>%Y\<close> is the pattern \<open>\d\d\d\d\<close>.\<close>

definition year_field :: "string \<Rightarrow> nat option" where
  "year_field s =
     (case map digit s of
        [Some a, Some b, Some c, Some d] \<Rightarrow> Some (1000 * a + 100 * b + 10 * c + d)
      | _ \<Rightarrow> None)"

text \<open>The directive \<open>%m\<close> is the pattern \<open>1[0-2]|0[1-9]|[1-9]\<close>.\<close>

definition month_field :: "string \<Rightarrow> nat option" where
  "month_field s =
     (case map digit s of
        [Some a, Some b] \<Rightarrow>
          (if (a = 1 \<and> b \<le> 2) \<or> (a = 0 \<and> 1 \<le> b) then Some (10 * a + b) else None)
      | [Some a] \<Rightarrow> (if 1 \<le> a then Some a else None)
      | _ \<Rightarrow> None)"

text \<open>The directive \<open>%d\<close> is the pattern \<open>3[01]|[12]\d|0[1-9]|[1-9]| [1-9]\<close>.\<close>

definition day_field :: "string \<Rightarrow> nat option" where
  "day_field s =
     (case s of
        [c1, c2] \<Rightarrow>
          (case (digit c1, digit c2) of
             (Some a, Some b) \<Rightarrow>
               (if (a = 3 \<and> b \<le> 1) \<or> a = 1 \<or> a = 2 \<or> (a = 0 \<and> 1 \<le> b)
                then Some (10 * a + b) else None)
           | (None, Some b) \<Rightarrow> (if c1 = CHR '' '' \<and> 1 \<le> b then Some b else None)
           | _ \<Rightarrow> None)
      | [c1] \<Rightarrow> (case digit c1 of Some a \<Rightarrow> (if 1 \<le> a then Some a else None) | None \<Rightarrow> None)
      | _ \<Rightarrow> None)"

text \<open>
  The text after \<open>YYYY-\<close> is a month field of one or two characters, a dash, and the
  day field, which must reach the end of the string.
\<close>

fun split_month_day :: "string \<Rightarrow> (string \<times> string) option" where
  "split_month_day (a # b # c # r) =
     (if b = CHR ''-'' then Some ([a], c # r)
      else if c = CHR ''-'' then Some ([a, b], r)
      else None)"
| "split_month_day _ = None"

definition strptime_date :: "string \<Rightarrow> exn + pydate" where
  "strptime_date s =
     (case year_field (take 4 s) of
        None \<Rightarrow> Inl ValueError
      | Some y \<Rightarrow>
          (if take 1 (drop 4 s) \<noteq> ''-'' then Inl ValueError
           else (case split_month_day (drop 5 s) of
                   None \<Rightarrow> Inl ValueError
                 | Some (ms, ds) \<Rightarrow>
                     (case (month_field ms, day_field ds) of
                        (Some m, Some d) \<Rightarrow> mk_date y m d
                      | _ \<Rightarrow> Inl ValueError))))"

text \<open>
  \<open>pd.to_datetime\<close> turns the dates into nanosecond timestamps at midnight, which exist
  from 1677-09-22 to 2262-04-11 only; a date outside raises \<open>OutOfBoundsDatetime\<close>.
\<close>

definition date_le :: "pydate \<Rightarrow> pydate \<Rightarrow> bool" where
  "date_le a b =
     (case (a, b) of
        ((y1, m1, d1), (y2, m2, d2)) \<Rightarrow>
          y1 < y2 \<or> (y1 = y2 \<and> (m1 < m2 \<or> (m1 = m2 \<and> d1 \<le> d2))))"

definition in_timestamp_range :: "pydate \<Rightarrow> bool" where
  "in_timestamp_range d = (date_le (1677, 9, 22) d \<and> date_le d (2262, 4, 11))"

definition to_datetime :: "pydate list \<Rightarrow> exn + pydate list" where
  "to_datetime ds = (if list_all in_timestamp_range ds then Inr ds else Inl OutOfBoundsDatetime)"

subsection \<open>Reading the items\<close>

text \<open>\<open>item[key]\<close> with a string key: only an object can be subscripted by a string.\<close>

definition getitem :: "json \<Rightarrow> string \<Rightarrow> exn + json" where
  "getitem item k =
     (case item of
        JObj kvs \<Rightarrow> (case map_of kvs k of None \<Rightarrow> Inl KeyError | Some v \<Rightarrow> Inr v)
      | _ \<Rightarrow> Inl TypeError)"

text \<open>\<open>datetime.strptime(v, '%Y-%m-%d').date()\<close>: the argument must be a string.\<close>

definition parse_date :: "json \<Rightarrow> exn + pydate" where
  "parse_date v = (case v of JStr s \<Rightarrow> strptime_date s | _ \<Rightarrow> Inl TypeError)"

text \<open>
  \<open>float(s)\<close> on a string, for plain decimal literals: an optional sign, digits, and an
  optional fraction. The other forms Python accepts (exponents, \<open>inf\<close>, \<open>nan\<close>,
  underscores, surrounding blanks) are outside this model and are rejected here.
\<close>

definition digits_value :: "string \<Rightarrow> nat option" where
  "digits_value s =
     (if list_all (\<lambda>c. digit c \<noteq> None) s
      then Some (foldl (\<lambda>acc c. 10 * acc + the (digit c)) 0 s) else None)"

definition unsigned_decimal :: "string \<Rightarrow> real option" where
  "unsigned_decimal s =
     (let ip = takeWhile (\<lambda>c. c \<noteq> CHR ''.'') s;
          rest = dropWhile (\<lambda>c. c \<noteq> CHR ''.'') s;
          fp = drop 1 rest
      in if ip = [] \<and> fp = [] then None
         else (case (digits_value ip, digits_value fp) of
                 (Some i, Some f) \<Rightarrow> Some (real i + real f / 10 ^ length fp)
               | _ \<Rightarrow> None))"

definition float_of_string :: "string \<Rightarrow> exn + real" where
  "float_of_string s =
     (case s of
        [] \<Rightarrow> Inl ValueError
      | c # r \<Rightarrow>
          (if c = CHR ''-'' then
             (case unsigned_decimal r of None \<Rightarrow> Inl ValueError | Some x \<Rightarrow> Inr (- x))
           else if c = CHR ''+'' then
             (case unsigned_decimal r of None \<Rightarrow> Inl ValueError | Some x \<Rightarrow> Inr x)
           else
             (case unsigned_decimal s of None \<Rightarrow> Inl ValueError | Some x \<Rightarrow> Inr x)))"

text \<open>\<open>float(v)\<close> on a JSON value.\<close>

definition py_float :: "json \<Rightarrow> exn + real" where
  "py_float v =
     (case v of
        JNum x \<Rightarrow> Inr x
      | JBool b \<Rightarrow> Inr (if b then 1 else 0)
      | JStr s \<Rightarrow> float_of_string s
      | _ \<Rightarrow> Inl TypeError)"

text \<open>
  \<open>for item in data\<close>: a list yields its elements, a dict its keys, a string its
  characters; the other JSON values are not iterable.
\<close>

definition py_iter :: "json \<Rightarrow> exn + json list" where
  "py_iter data =
     (case data of
        JArr items \<Rightarrow> Inr items
      | JObj kvs \<Rightarrow> Inr (map (\<lambda>kv. JStr (fst kv)) kvs)
      | JStr s \<Rightarrow> Inr (map (\<lambda>c. JStr [c]) s)
      | _ \<Rightarrow> Inl TypeError)"

record dataframe =
  Date :: "pydate list"
  Price :: "real list"

text \<open>The loop of lines 25 to 27, with the two lists it appends to.\<close>

fun collect :: "json list \<Rightarrow> pydate list \<Rightarrow> real list \<Rightarrow> exn + (pydate list \<times> real list)" where
  "collect [] dates prices = Inr (dates, prices)"
| "collect (item # items) dates prices =
     (case getitem item ''data'' of
        Inl e \<Rightarrow> Inl e
      | Inr v \<Rightarrow>
          (case parse_date v of
             Inl e \<Rightarrow> Inl e
           | Inr d \<Rightarrow>
               (case getitem item ''cena'' of
                  Inl e \<Rightarrow> Inl e
                | Inr c \<Rightarrow>
                    (case py_float c of
                       Inl e \<Rightarrow> Inl e
                     | Inr p \<Rightarrow> collect items (dates @ [d]) (prices @ [p])))))"

text \<open>Lines 22 to 32: the loop, the data frame, and the conversion of its date column.\<close>

definition process :: "json \<Rightarrow> exn + dataframe" where
  "process data =
     (case py_iter data of
        Inl e \<Rightarrow> Inl e
      | Inr items \<Rightarrow>
          (case collect items [] [] of
             Inl e \<Rightarrow> Inl e
           | Inr (dates, prices) \<Rightarrow>
               (case to_datetime dates of
                  Inl e \<Rightarrow> Inl e
                | Inr ts \<Rightarrow> Inr \<lparr>Date = ts, Price = prices\<rparr>)))"

definition url_of :: "string \<Rightarrow> string \<Rightarrow> string" where
  "url_of start_date end_date =
     ''https://api.nbp.pl/api/cenyzlota/'' @ start_date @ ''/'' @ end_date @ ''/''"

definition print_error :: "req_exn \<Rightarrow> io \<Rightarrow> io" where
  "print_error e s = s\<lparr>printed := printed s @ [e]\<rparr>"

text \<open>
  \<open>get_gold_data\<close>: one GET per call. \<open>raise_for_status\<close> raises for the status codes
  400 to 599; a \<open>RequestException\<close> is printed and becomes the result \<open>None\<close>; any other
  exception leaves the function (\<open>Inl\<close>).
\<close>

definition get_gold_data ::
  "(string \<Rightarrow> http_reply) \<Rightarrow> string \<Rightarrow> string \<Rightarrow> io \<Rightarrow> (exn + dataframe option) \<times> io" where
  "get_gold_data net start_date end_date s =
     (let url = url_of start_date end_date;
          s1 = s\<lparr>requested := requested s @ [url]\<rparr>
      in case net url of
           NoReply \<Rightarrow> (Inr None, print_error ConnectionError s1)
         | Reply status body \<Rightarrow>
             (if 400 \<le> status \<and> status < 600 then (Inr None, print_error (HTTPError status) s1)
              else (case body of
                      None \<Rightarrow> (Inr None, print_error JSONDecodeError s1)
                    | Some data \<Rightarrow>
                        (case process data of
                           Inl e \<Rightarrow> (Inl e, s1)
                         | Inr df \<Rightarrow> (Inr (Some df), s1)))))"

section \<open>The statistics\<close>

text \<open>
  A float as the statistics produce it: a number, or NaN. The prices themselves are
  numbers.
\<close>

datatype fval = NaN | Num real

text \<open>
  The \<open>pandas\<close> reductions on the price column. On an empty column \<open>mean\<close>, \<open>max\<close>,
  \<open>min\<close> and \<open>quantile\<close> return NaN and \<open>mode\<close> returns an empty series; \<open>std\<close>
  (the sample deviation, divisor \<open>n - 1\<close>) returns NaN below two values.
\<close>

definition series_mean :: "real list \<Rightarrow> fval" where
  "series_mean xs = (if xs = [] then NaN else Num (sum_list xs / real (length xs)))"

definition series_max :: "real list \<Rightarrow> fval" where
  "series_max xs = (if xs = [] then NaN else Num (Max (set xs)))"

definition series_min :: "real list \<Rightarrow> fval" where
  "series_min xs = (if xs = [] then NaN else Num (Min (set xs)))"

text \<open>
  \<open>quantile(q)\<close> with the default linear interpolation: the position \<open>q * (n - 1)\<close> in
  the sorted values, interpolated between its two neighbours.
\<close>

definition interpolate :: "real \<Rightarrow> real list \<Rightarrow> real" where
  "interpolate q vs =
     (let pos = q * real (length vs - 1);
          lo = nat \<lfloor>pos\<rfloor>;
          hi = nat \<lceil>pos\<rceil>
      in vs ! lo + (vs ! hi - vs ! lo) * (pos - real lo))"

definition series_quantile :: "real \<Rightarrow> real list \<Rightarrow> fval" where
  "series_quantile q xs = (if xs = [] then NaN else Num (interpolate q (sort xs)))"

text \<open>\<open>mode()\<close>: the values of the highest count, in ascending order.\<close>

definition series_mode :: "real list \<Rightarrow> real list" where
  "series_mode xs =
     sort (filter (\<lambda>x. count_list xs x = Max (set (map (count_list xs) xs))) (remdups xs))"

text \<open>\<open>mode()[0]\<close>: the label 0 of the result, absent when the result is empty.\<close>

definition first_mode :: "real list \<Rightarrow> exn + real" where
  "first_mode xs = (case series_mode xs of [] \<Rightarrow> Inl KeyError | m # _ \<Rightarrow> Inr m)"

definition sample_std :: "real list \<Rightarrow> real" where
  "sample_std xs =
     (let m = sum_list xs / real (length xs)
      in sqrt (sum_list (map (\<lambda>x. (x - m)\<^sup>2) xs) / real (length xs - 1)))"

definition series_std :: "real list \<Rightarrow> fval" where
  "series_std xs = (if length xs < 2 then NaN else Num (sample_std xs))"

text \<open>\<open>round(x, 2)\<close>: to the nearest multiple of 0.01, a tie to the even one; NaN stays NaN.\<close>

definition round_half_even :: "real \<Rightarrow> int" where
  "round_half_even y =
     (let f = \<lfloor>y\<rfloor>; d = y - of_int f
      in if d < 1 / 2 then f else if 1 / 2 < d then f + 1 else if even f then f else f + 1)"

definition round2 :: "real \<Rightarrow> real" where
  "round2 x = of_int (round_half_even (x * 100)) / 100"

definition py_round :: "fval \<Rightarrow> fval" where
  "py_round v = (case v of NaN \<Rightarrow> NaN | Num x \<Rightarrow> Num (round2 x))"

definition fsub :: "fval \<Rightarrow> fval \<Rightarrow> fval" where
  "fsub a b = (case (a, b) of (Num x, Num y) \<Rightarrow> Num (x - y) | _ \<Rightarrow> NaN)"

text \<open>Lines 139 to 147: the nine values of the analysis tab.\<close>

record stats =
  avg_price :: fval
  min_price :: fval
  max_price :: fval
  q1 :: fval
  q2 :: fval
  q3 :: fval
  mode :: fval
  std_dev :: fval
  iqr :: fval

definition analysis_stats :: "real list \<Rightarrow> exn + stats" where
  "analysis_stats prices =
     (let avg = py_round (series_mean prices);
          mn = py_round (series_min prices);
          mx = py_round (series_max prices);
          qa = py_round (series_quantile (25 / 100) prices);
          qb = py_round (series_quantile (5 / 10) prices);
          qc = py_round (series_quantile (75 / 100) prices)
      in case first_mode prices of
           Inl e \<Rightarrow> Inl e
         | Inr m \<Rightarrow>
             Inr \<lparr>avg_price = avg, min_price = mn, max_price = mx, q1 = qa, q2 = qb, q3 = qc,
                  mode = py_round (Num m), std_dev = py_round (series_std prices),
                  iqr = py_round (fsub qc qa)\<rparr>)"

section \<open>The renderer\<close>

text \<open>
  The Dash components the callback builds. An f-string is kept as its pieces, so that a
  float in it is a value and not its printed form; the PNG of the matplotlib figure is
  kept as the description of the figure.
\<close>

datatype piece = Lit string | Val fval

datatype cell = CStr string | CNum fval

record figure =
  figsize :: "nat \<times> nat"
  xdata :: "pydate list"
  ydata :: "real list"
  line_label :: string
  xlabel :: string
  ylabel :: string
  title :: string
  legend :: bool
  grid :: bool

datatype attr = Plain | Style "(string \<times> string) list" | ClassName string

datatype html =
    P "piece list"
  | H3 string
  | Img figure attr
  | Th string
  | Td cell
  | Tr "html list"
  | Thead html
  | Tbody "html list"
  | Table "html list" attr
  | Div "html list" attr

text \<open>The dictionary \<open>definitions\<close> of lines 42 to 52.\<close>

definition definitions :: "(string \<times> string) list" where
  "definitions =
     [(''Average Price'', ''The arithmetic mean of gold prices over a given period.''),
      (''Minimum Price'', ''The lowest gold price over a given period.''),
      (''Maximum Price'', ''The highest gold price over a given period.''),
      (''First Quartile'', ''The value below which 25% of the lowest prices are found.''),
      (''Median'', ''The middle value separating the lower half from the upper half of the data.''),
      (''Third Quartile'', ''The value below which 75% of the lowest prices are found.''),
      (''Mode'', ''The value that appears most frequently in the dataset.''),
      (''Standard Deviation'', ''A measure of data dispersion around the mean value.''),
      (''Interquartile Range'',
       ''The difference between the third and first quartile, indicating data dispersion.'')]"

definition lookup_definition :: "string \<Rightarrow> exn + string" where
  "lookup_definition k = (case map_of definitions k of None \<Rightarrow> Inl KeyError | Some v \<Rightarrow> Inr v)"

fun lookup_all :: "string list \<Rightarrow> exn + string list" where
  "lookup_all [] = Inr []"
| "lookup_all (k # ks) =
     (case lookup_definition k of
        Inl e \<Rightarrow> Inl e
      | Inr v \<Rightarrow> (case lookup_all ks of Inl e \<Rightarrow> Inl e | Inr vs \<Rightarrow> Inr (v # vs)))"

text \<open>The frame \<open>stats_df\<close> of lines 150 to 154, column by column.\<close>

record stats_frame =
  Statistic :: "string list"
  Value :: "fval list"
  Definition :: "string list"

definition statistic_names :: "string list" where
  "statistic_names =
     [''Average Price'', ''Minimum Price'', ''Maximum Price'', ''First Quartile'', ''Median'',
      ''Third Quartile'', ''Mode'', ''Standard Deviation'', ''Interquartile Range'']"

definition stats_values :: "stats \<Rightarrow> fval list" where
  "stats_values st =
     [avg_price st, min_price st, max_price st, q1 st, q2 st, q3 st, mode st, std_dev st, iqr st]"

definition make_stats_df :: "stats \<Rightarrow> exn + stats_frame" where
  "make_stats_df st =
     (case lookup_all statistic_names of
        Inl e \<Rightarrow> Inl e
      | Inr defs \<Rightarrow> Inr \<lparr>Statistic = statistic_names, Value = stats_values st, Definition = defs\<rparr>)"

definition columns :: "string list" where
  "columns = [''Statistic'', ''Value'', ''Definition'']"

text \<open>\<open>len(stats_df)\<close> is the common length of the columns.\<close>

definition frame_len :: "stats_frame \<Rightarrow> nat" where
  "frame_len f = length (Statistic f)"

text \<open>\<open>stats_df.iloc[i][col]\<close> for the three columns of the frame.\<close>

definition frame_cell :: "stats_frame \<Rightarrow> nat \<Rightarrow> string \<Rightarrow> cell" where
  "frame_cell f i col =
     (if col = ''Statistic'' then CStr (Statistic f ! i)
      else if col = ''Value'' then CNum (Value f ! i)
      else CStr (Definition f ! i))"

text \<open>Lines 157 to 166: the header from the column names, one row per index.\<close>

definition html_table :: "stats_frame \<Rightarrow> html" where
  "html_table f =
     Table [Thead (Tr (map Th columns)),
            Tbody (map (\<lambda>i. Tr (map (\<lambda>col. Td (frame_cell f i col)) columns)) [0 ..< frame_len f])]
       (ClassName ''table table-striped'')"

definition period_line :: "string \<Rightarrow> string \<Rightarrow> html" where
  "period_line start_date end_date =
     P [Lit (''Data period: from '' @ start_date @ '' to '' @ end_date)]"

text \<open>Lines 103 to 136: the chart tab.\<close>

definition make_figure :: "dataframe \<Rightarrow> figure" where
  "make_figure df =
     \<lparr>figsize = (13, 6), xdata = Date df, ydata = Price df, line_label = ''Actual Price'',
      xlabel = ''Date'', ylabel = ''Gold Price'', title = ''Gold Prices from NBP'',
      legend = True, grid = True\<rparr>"

definition gold_view :: "dataframe \<Rightarrow> string \<Rightarrow> string \<Rightarrow> html list" where
  "gold_view df start_date end_date =
     (let avg = py_round (series_mean (Price df));
          mx = py_round (series_max (Price df));
          mn = py_round (series_min (Price df))
      in [Div [Img (make_figure df) (Style [(''width'', ''100%'')]),
               Div [period_line start_date end_date,
                    P [Lit ''Average Price: '', Val avg, Lit '' PLN''],
                    P [Lit ''Maximum Price: '', Val mx, Lit '' PLN''],
                    P [Lit ''Minimum Price: '', Val mn, Lit '' PLN'']]
                 (Style [(''textAlign'', ''center''), (''margin-top'', ''20px'')])]
            Plain])"

text \<open>Lines 138 to 176: the analysis tab.\<close>

definition analysis_view :: "dataframe \<Rightarrow> string \<Rightarrow> string \<Rightarrow> exn + html list" where
  "analysis_view df start_date end_date =
     (case analysis_stats (Price df) of
        Inl e \<Rightarrow> Inl e
      | Inr st \<Rightarrow>
          (case make_stats_df st of
             Inl e \<Rightarrow> Inl e
           | Inr f \<Rightarrow>
               Inr [Div [H3 ''Gold Price Analysis'',
                         Div [period_line start_date end_date, html_table f]
                           (ClassName ''analysis-table'')]
                      Plain]))"

definition error_view :: "html list" where
  "error_view = [Div [P [Lit ''Error fetching data. Please try again later.'']] Plain]"

text \<open>
  \<open>render_content\<close>: the result is the list the callback returns, \<open>None\<close> when the
  function ends without a \<open>return\<close>, or the exception that leaves it.
\<close>

definition render_content ::
  "(string \<Rightarrow> http_reply) \<Rightarrow> string \<Rightarrow> string \<Rightarrow> string \<Rightarrow> io \<Rightarrow> (exn + html list option) \<times> io" where
  "render_content net tab start_date end_date s =
     (case get_gold_data net start_date end_date s of
        (Inl e, s') \<Rightarrow> (Inl e, s')
      | (Inr None, s') \<Rightarrow> (Inr (Some error_view), s')
      | (Inr (Some df), s') \<Rightarrow>
          (if tab = ''gold'' then (Inr (Some (gold_view df start_date end_date)), s')
           else if tab = ''analysis'' then
             (case analysis_view df start_date end_date of
                Inl e \<Rightarrow> (Inl e, s')
              | Inr h \<Rightarrow> (Inr (Some h), s'))
           else (Inr None, s')))"

text \<open>
  A session of the dashboard: each change of the tab or of the dates calls the callback
  once. The outputs are collected in order; the effects accumulate.
\<close>

fun run_events ::
  "(string \<Rightarrow> http_reply) \<Rightarrow> (string \<times> string \<times> string) list \<Rightarrow> io \<Rightarrow>
     (exn + html list option) list \<times> io" where
  "run_events net [] s = ([], s)"
| "run_events net ((tab, start_date, end_date) # evs) s =
     (case render_content net tab start_date end_date s of
        (out, s') \<Rightarrow> (case run_events net evs s' of (outs, s'') \<Rightarrow> (out # outs, s'')))"

section \<open>Notions used to state the properties\<close>

text \<open>A network that gives the same reply to every URL, and the state before any call.\<close>

definition constant_net :: "http_reply \<Rightarrow> string \<Rightarrow> http_reply" where
  "constant_net r url = r"

definition io0 :: io where
  "io0 = \<lparr>requested = [], printed = []\<rparr>"

text \<open>A network that replies to one URL only.\<close>

definition single_net :: "string \<Rightarrow> http_reply \<Rightarrow> string \<Rightarrow> http_reply" where
  "single_net u r url = (if url = u then r else NoReply)"

text \<open>Replies of the API, as JSON: one observation, and two in the order 5 March, 4 March.\<close>

definition sample_item :: json where
  "sample_item = JObj [(''data'', JStr ''2024-01-02''), (''cena'', JNum (26154 / 100))]"


text \<open>
  The replies that \<open>get_gold_data\<close> turns into a \<open>RequestException\<close>: no reply, a status
  from 400 to 599, or a body that is not JSON.
\<close>

definition fetch_error :: "http_reply \<Rightarrow> bool" where
  "fetch_error r =
     (case r of
        NoReply \<Rightarrow> True
      | Reply status body \<Rightarrow> (400 \<le> status \<and> status < 600) \<or> body = None)"

text \<open>
  The failures as the specification lists them: a network failure, a response whose
  status is not 2xx, or a body that is not JSON.
\<close>

definition spec_fetch_failure :: "http_reply \<Rightarrow> bool" where
  "spec_fetch_failure r =
     (case r of
        NoReply \<Rightarrow> True
      | Reply status body \<Rightarrow> status < 200 \<or> 300 \<le> status \<or> body = None)"





text \<open>A number with at most two decimal places.\<close>

definition two_decimals :: "real \<Rightarrow> bool" where
  "two_decimals x = (of_int \<lfloor>x * 100\<rfloor> = x * 100)"

text \<open>A reported value that is NaN or has at most two decimal places.\<close>

definition is_rounded :: "fval \<Rightarrow> bool" where
  "is_rounded v = (case v of NaN \<Rightarrow> True | Num x \<Rightarrow> two_decimals x)"


section \<open>Rounding\<close>

lemma round2_of_int: "round2 (of_int k) = of_int k"
proof -
  have "\<lfloor>(of_int k :: real) * 100\<rfloor> = k * 100"
    by (metis floor_of_int of_int_mult of_int_numeral)
  then show ?thesis by (simp add: round2_def round_half_even_def)
qed

lemma round2_numeral: "round2 (numeral n) = numeral n"
  using round2_of_int [of "numeral n"] by simp

lemma round_half_even_bounds:
  "\<bar>of_int (round_half_even y) - y\<bar> \<le> 1 / 2"
  unfolding round_half_even_def Let_def by (auto simp: abs_le_iff)

lemma round2_two_decimals: "two_decimals (round2 x)"
  unfolding two_decimals_def round2_def by simp

lemma round2_close: "\<bar>round2 x - x\<bar> \<le> 1 / 200"
proof -
  have "\<bar>of_int (round_half_even (x * 100)) - x * 100\<bar> \<le> 1 / 2"
    by (rule round_half_even_bounds)
  then show ?thesis by (simp add: round2_def abs_le_iff field_simps)
qed





section \<open>The statistics of a fixed sequence\<close>

lemma std_bounds: "12909 + 1 / 2 < sqrt (50000 / 3) * 100 \<and> sqrt (50000 / 3) * 100 < 12910"
proof
  have "(129095 / 1000)\<^sup>2 < (50000 / 3 :: real)" by (simp add: power2_eq_square)
  then have "129095 / 1000 < sqrt (50000 / 3)" by (rule real_less_rsqrt)
  then show "12909 + 1 / 2 < sqrt (50000 / 3) * 100" by simp
next
  have "(50000 / 3 :: real) < (1291 / 10)\<^sup>2" by (simp add: power2_eq_square)
  then have "sqrt (50000 / 3) < 1291 / 10" by (intro real_less_lsqrt) simp_all
  then show "sqrt (50000 / 3) * 100 < 12910" by simp
qed

lemma std_round: "round2 (sqrt (50000 / 3)) = 12910 / 100"
proof -
  have f: "\<lfloor>sqrt (50000 / 3) * 100\<rfloor> = 12909"
    using std_bounds by (simp add: floor_eq_iff)
  show ?thesis
    using std_bounds by (simp add: round2_def round_half_even_def f Let_def)
qed

lemma std_fixed: "series_std [100, 200, 300, 400] = Num (sqrt (50000 / 3))"
  by (simp add: series_std_def sample_std_def power2_eq_square)

lemma first_mode_fixed: "first_mode [100, 200, 300, 400] = Inr 100"
  by (simp add: first_mode_def series_mode_def)

text \<open>
  C4. For the prices 100, 200, 300, 400 the analysis computes the mean 250, the minimum
  100, the maximum 400, the quartiles 175, 250 and 325 (interpolated between the sorted
  values), the mode 100, the sample standard deviation 129.10 after rounding, and the
  interquartile range 150.
\<close>

theorem fixed_sequence_statistics:
  "analysis_stats [100, 200, 300, 400] =
     Inr \<lparr>avg_price = Num 250, min_price = Num 100, max_price = Num 400,
          q1 = Num 175, q2 = Num 250, q3 = Num 325, mode = Num 100,
          std_dev = Num (12910 / 100), iqr = Num 150\<rparr>"
  by (simp add: analysis_stats_def first_mode_fixed std_fixed py_round_def std_round
      series_mean_def series_min_def series_max_def series_quantile_def interpolate_def
      fsub_def round2_numeral)

section \<open>The mode\<close>








section \<open>Rounding of the summary\<close>

lemma is_rounded_py_round: "is_rounded (py_round v)"
  by (cases v) (simp_all add: is_rounded_def py_round_def round2_two_decimals)





section \<open>The fetch and the callback, by cases\<close>

lemma process_empty: "process (JArr []) = Inr \<lparr>Date = [], Price = []\<rparr>"
  by (simp add: process_def py_iter_def to_datetime_def)

lemma process_sample:
  "process (JArr [sample_item]) = Inr \<lparr>Date = [(2024, 1, 2)], Price = [26154 / 100]\<rparr>"
  by (simp add: process_def py_iter_def sample_item_def getitem_def parse_date_def
      strptime_date_def year_field_def month_field_def day_field_def digit_def mk_date_def
      days_in_month_def py_float_def to_datetime_def in_timestamp_range_def date_le_def)

lemma get_gold_data_fst:
  "fst (get_gold_data net sd ed s) =
     (case net (url_of sd ed) of
        NoReply \<Rightarrow> Inr None
      | Reply status body \<Rightarrow>
          (if 400 \<le> status \<and> status < 600 then Inr None
           else (case body of None \<Rightarrow> Inr None | Some data \<Rightarrow> map_sum id Some (process data))))"
  by (cases "net (url_of sd ed)")
     (auto simp: get_gold_data_def Let_def split: option.splits sum.splits)

lemma fetch_empty:
  "fst (get_gold_data (constant_net (Reply 200 (Some (JArr [])))) sd ed s) =
     Inr (Some \<lparr>Date = [], Price = []\<rparr>)"
  by (simp add: get_gold_data_def constant_net_def process_empty Let_def)

lemma get_gold_data_requested:
  "requested (snd (get_gold_data net sd ed s)) = requested s @ [url_of sd ed]"
  by (simp add: get_gold_data_def Let_def print_error_def
      split: http_reply.splits option.splits sum.splits)

lemma render_content_fst:
  "fst (render_content net tab sd ed s) =
     (case fst (get_gold_data net sd ed s) of
        Inl e \<Rightarrow> Inl e
      | Inr None \<Rightarrow> Inr (Some error_view)
      | Inr (Some df) \<Rightarrow>
          (if tab = ''gold'' then Inr (Some (gold_view df sd ed))
           else if tab = ''analysis'' then map_sum id Some (analysis_view df sd ed)
           else Inr None))"
  by (cases "get_gold_data net sd ed s")
     (auto simp: render_content_def split: sum.splits option.splits)

lemma render_content_snd:
  "snd (render_content net tab sd ed s) = snd (get_gold_data net sd ed s)"
  by (cases "get_gold_data net sd ed s")
     (auto simp: render_content_def split: sum.splits option.splits)

lemma render_content_cases:
  assumes "fst (get_gold_data net sd ed s) = Inr (Some df)"
  shows "fst (render_content net tab sd ed s) =
     (if tab = ''gold'' then Inr (Some (gold_view df sd ed))
      else if tab = ''analysis'' then map_sum id Some (analysis_view df sd ed)
      else Inr None)"
  using assms
  by (cases "get_gold_data net sd ed s") (auto simp: render_content_def split: sum.splits)

section \<open>An empty price sequence\<close>

text \<open>
  C1, as the code has it. When the fetch succeeds with no observation, the chart tab
  still returns its summary, with NaN as average, maximum and minimum and no error;
  the analysis tab raises \<open>KeyError\<close> (from \<open>mode()[0]\<close>) and returns no table.
\<close>

theorem empty_prices_rendering:
  assumes "fst (get_gold_data net sd ed s) = Inr (Some df)" and "Price df = []"
  shows "fst (render_content net ''gold'' sd ed s) =
           Inr (Some [Div [Img (make_figure df) (Style [(''width'', ''100%'')]),
                           Div [period_line sd ed,
                                P [Lit ''Average Price: '', Val NaN, Lit '' PLN''],
                                P [Lit ''Maximum Price: '', Val NaN, Lit '' PLN''],
                                P [Lit ''Minimum Price: '', Val NaN, Lit '' PLN'']]
                             (Style [(''textAlign'', ''center''), (''margin-top'', ''20px'')])]
                        Plain]) \<and>
         fst (render_content net ''analysis'' sd ed s) = Inl KeyError"
proof
  show "fst (render_content net ''gold'' sd ed s) =
           Inr (Some [Div [Img (make_figure df) (Style [(''width'', ''100%'')]),
                           Div [period_line sd ed,
                                P [Lit ''Average Price: '', Val NaN, Lit '' PLN''],
                                P [Lit ''Maximum Price: '', Val NaN, Lit '' PLN''],
                                P [Lit ''Minimum Price: '', Val NaN, Lit '' PLN'']]
                             (Style [(''textAlign'', ''center''), (''margin-top'', ''20px'')])]
                        Plain])"
    by (simp add: render_content_cases [OF assms(1)] gold_view_def assms(2) series_mean_def
        series_max_def series_min_def py_round_def)
  have "first_mode [] = Inl KeyError" by (simp add: first_mode_def series_mode_def)
  then have "analysis_view df sd ed = Inl KeyError"
    by (simp add: analysis_view_def analysis_stats_def assms(2) Let_def)
  then show "fst (render_content net ''analysis'' sd ed s) = Inl KeyError"
    by (simp add: render_content_cases [OF assms(1)])
qed

theorem empty_prices_rendering_witness:
  "fst (get_gold_data (constant_net (Reply 200 (Some (JArr [])))) ''2024-01-01'' ''2024-01-31'' io0)
     = Inr (Some \<lparr>Date = [], Price = []\<rparr>) \<and>
   Price \<lparr>Date = [], Price = []\<rparr> = [] \<and>
   fst (render_content (constant_net (Reply 200 (Some (JArr [])))) ''analysis''
          ''2024-01-01'' ''2024-01-31'' io0) = Inl KeyError"
proof -
  have a: "fst (get_gold_data (constant_net (Reply 200 (Some (JArr []))))
             ''2024-01-01'' ''2024-01-31'' io0) = Inr (Some \<lparr>Date = [], Price = []\<rparr>)"
    by (rule fetch_empty)
  have b: "Price \<lparr>Date = [], Price = []\<rparr> = []" by simp
  from empty_prices_rendering [OF a b] show ?thesis using a b by blast
qed

text \<open>
  C1 as stated fails: for the reply 200 with the empty array the chart tab returns a
  summary whose three values are NaN, not an error.
\<close>

theorem empty_prices_counterexample:
  "fst (render_content (constant_net (Reply 200 (Some (JArr [])))) ''gold''
          ''2024-01-01'' ''2024-01-31'' io0) =
     Inr (Some [Div [Img \<lparr>figsize = (13, 6), xdata = [], ydata = [],
                          line_label = ''Actual Price'', xlabel = ''Date'',
                          ylabel = ''Gold Price'', title = ''Gold Prices from NBP'',
                          legend = True, grid = True\<rparr>
                       (Style [(''width'', ''100%'')]),
                     Div [P [Lit ''Data period: from 2024-01-01 to 2024-01-31''],
                          P [Lit ''Average Price: '', Val NaN, Lit '' PLN''],
                          P [Lit ''Maximum Price: '', Val NaN, Lit '' PLN''],
                          P [Lit ''Minimum Price: '', Val NaN, Lit '' PLN'']]
                       (Style [(''textAlign'', ''center''), (''margin-top'', ''20px'')])]
                  Plain])"
  by (simp add: render_content_cases [OF fetch_empty] gold_view_def series_mean_def
      series_max_def series_min_def py_round_def make_figure_def period_line_def)

section \<open>A tab that is neither of the two\<close>

text \<open>
  C10. After a successful fetch, a tab value other than \<open>gold\<close> and \<open>analysis\<close>
  makes \<open>render_content\<close> reach its end without a \<open>return\<close>: the result is \<open>None\<close>,
  neither a chart, a table nor the error message.
\<close>

theorem unknown_tab_returns_none:
  assumes "tab \<noteq> ''gold''" and "tab \<noteq> ''analysis''"
    and "fst (get_gold_data net sd ed s) = Inr (Some df)"
  shows "fst (render_content net tab sd ed s) = Inr None"
  by (simp add: render_content_cases [OF assms(3)] assms(1,2))

theorem unknown_tab_returns_none_witness:
  "''other'' \<noteq> ''gold'' \<and> ''other'' \<noteq> ''analysis'' \<and>
   fst (get_gold_data (constant_net (Reply 200 (Some (JArr [])))) ''2024-01-01'' ''2024-01-31'' io0)
     = Inr (Some \<lparr>Date = [], Price = []\<rparr>) \<and>
   fst (render_content (constant_net (Reply 200 (Some (JArr [])))) ''other''
          ''2024-01-01'' ''2024-01-31'' io0) = Inr None"
proof -
  have a: "''other'' \<noteq> ''gold''" and b: "''other'' \<noteq> ''analysis''" by simp_all
  have c: "fst (get_gold_data (constant_net (Reply 200 (Some (JArr []))))
             ''2024-01-01'' ''2024-01-31'' io0) = Inr (Some \<lparr>Date = [], Price = []\<rparr>)"
    by (simp add: get_gold_data_def constant_net_def process_def py_iter_def to_datetime_def
        Let_def)
  from unknown_tab_returns_none [OF a b c] show ?thesis using a b c by blast
qed

section \<open>Failures of the fetch\<close>

text \<open>
  C2, as the code has it. When the request gets no reply, or a reply with a status from
  400 to 599, or a body that is not JSON, \<open>get_gold_data\<close> returns \<open>None\<close> and
  \<open>render_content\<close> returns the error message, whatever the tab.
\<close>

theorem fetch_error_gives_message:
  assumes "fetch_error (net (url_of sd ed))"
  shows "fst (get_gold_data net sd ed s) = Inr None \<and>
         fst (render_content net tab sd ed s) =
           Inr (Some [Div [P [Lit ''Error fetching data. Please try again later.'']] Plain])"
proof -
  have "fst (get_gold_data net sd ed s) = Inr None"
    using assms
    by (auto simp: get_gold_data_fst fetch_error_def split: http_reply.splits option.splits)
  then show ?thesis by (simp add: render_content_fst error_view_def)
qed

theorem fetch_error_gives_message_witness:
  "fetch_error (constant_net (Reply 404 None) (url_of ''2024-01-01'' ''2024-01-31'')) \<and>
   fst (get_gold_data (constant_net (Reply 404 None)) ''2024-01-01'' ''2024-01-31'' io0) = Inr None \<and>
   fst (render_content (constant_net (Reply 404 None)) ''gold'' ''2024-01-01'' ''2024-01-31'' io0) =
     Inr (Some [Div [P [Lit ''Error fetching data. Please try again later.'']] Plain])"
proof -
  have h: "fetch_error (constant_net (Reply 404 None) (url_of ''2024-01-01'' ''2024-01-31''))"
    by (simp add: fetch_error_def constant_net_def)
  from fetch_error_gives_message [where net = "constant_net (Reply 404 None)"
      and sd = "''2024-01-01''" and ed = "''2024-01-31''", OF h]
  show ?thesis using h by blast
qed

text \<open>
  C2 as stated fails for a status that is not 2xx and not an error for
  \<open>raise_for_status\<close>: a reply 300 with a JSON body is processed like a success.
\<close>

theorem non_2xx_counterexample:
  "spec_fetch_failure (Reply 300 (Some (JArr [sample_item]))) \<and>
   fst (get_gold_data (constant_net (Reply 300 (Some (JArr [sample_item]))))
          ''2024-01-01'' ''2024-01-31'' io0) =
     Inr (Some \<lparr>Date = [(2024, 1, 2)], Price = [26154 / 100]\<rparr>)"
  by (simp add: spec_fetch_failure_def get_gold_data_fst constant_net_def process_sample)

section \<open>One request per call\<close>

lemma run_events_requested:
  "requested (snd (run_events net evs s)) =
     requested s @ map (\<lambda>ev. url_of (fst (snd ev)) (snd (snd ev))) evs"
proof (induction evs arbitrary: s)
  case Nil
  then show ?case by simp
next
  case (Cons ev evs)
  obtain tab sd ed where ev: "ev = (tab, sd, ed)" by (cases ev) auto
  obtain out s' where r: "render_content net tab sd ed s = (out, s')"
    by (cases "render_content net tab sd ed s") auto
  have s': "requested s' = requested s @ [url_of sd ed]"
    using render_content_snd [of net tab sd ed s] get_gold_data_requested [of net sd ed s] r
    by simp
  show ?case
    using Cons.IH [of s'] by (cases "run_events net evs s'") (simp add: ev r s')
qed

text \<open>
  C3, as the code has it. Every call of \<open>render_content\<close> issues one GET for the URL
  of its dates, also when only the tab changed: after a session of \<open>k\<close> events, \<open>k\<close>
  more requests have been made. Nothing is kept between two calls.
\<close>

theorem every_render_fetches:
  "length (requested (snd (run_events net evs s))) = length (requested s) + length evs \<and>
   requested (snd (render_content net tab sd ed s)) = requested s @ [url_of sd ed]"
  by (simp add: run_events_requested render_content_snd get_gold_data_requested)

text \<open>
  C3 as stated fails: with the dates unchanged, the switch from the chart tab to the
  analysis tab requests the same URL a second time.
\<close>

theorem tab_switch_counterexample:
  "requested (snd (run_events (constant_net (Reply 200 (Some (JArr [sample_item]))))
      [(''gold'', ''2024-01-01'', ''2024-01-31'')] io0)) =
     [''https://api.nbp.pl/api/cenyzlota/2024-01-01/2024-01-31/''] \<and>
   requested (snd (run_events (constant_net (Reply 200 (Some (JArr [sample_item]))))
      [(''gold'', ''2024-01-01'', ''2024-01-31''), (''analysis'', ''2024-01-01'', ''2024-01-31'')]
      io0)) =
     [''https://api.nbp.pl/api/cenyzlota/2024-01-01/2024-01-31/'',
      ''https://api.nbp.pl/api/cenyzlota/2024-01-01/2024-01-31/'']"
  unfolding run_events_requested by (simp add: io0_def url_of_def)

section \<open>Determinism\<close>

text \<open>
  C9. The output of \<open>render_content\<close> depends on the tab, the two dates and the reply
  of the network to the URL of these dates only: two calls with the same tab and dates
  and the same reply return the same output, whatever happened before either of them.
\<close>

theorem render_deterministic:
  assumes "netA (url_of sd ed) = netB (url_of sd ed)"
  shows "fst (render_content netA tab sd ed sA) = fst (render_content netB tab sd ed sB)"
  by (simp add: render_content_fst get_gold_data_fst assms)

theorem render_deterministic_witness:
  "constant_net (Reply 200 (Some (JArr [sample_item]))) (url_of ''2024-01-01'' ''2024-01-31'') =
   single_net ''https://api.nbp.pl/api/cenyzlota/2024-01-01/2024-01-31/''
     (Reply 200 (Some (JArr [sample_item]))) (url_of ''2024-01-01'' ''2024-01-31'') \<and>
   fst (render_content (constant_net (Reply 200 (Some (JArr [sample_item])))) ''analysis''
          ''2024-01-01'' ''2024-01-31'' io0) =
   fst (render_content
          (single_net ''https://api.nbp.pl/api/cenyzlota/2024-01-01/2024-01-31/''
             (Reply 200 (Some (JArr [sample_item]))))
          ''analysis'' ''2024-01-01'' ''2024-01-31''
          \<lparr>requested = [''https://api.nbp.pl/api/cenyzlota/2023-01-01/2023-01-31/''],
           printed = [HTTPError 404]\<rparr>)"
proof -
  have h: "constant_net (Reply 200 (Some (JArr [sample_item])))
             (url_of ''2024-01-01'' ''2024-01-31'') =
           single_net ''https://api.nbp.pl/api/cenyzlota/2024-01-01/2024-01-31/''
             (Reply 200 (Some (JArr [sample_item]))) (url_of ''2024-01-01'' ''2024-01-31'')"
    by (simp add: constant_net_def single_net_def url_of_def)
  from render_deterministic [where netA = "constant_net (Reply 200 (Some (JArr [sample_item])))"
      and netB = "single_net ''https://api.nbp.pl/api/cenyzlota/2024-01-01/2024-01-31/''
             (Reply 200 (Some (JArr [sample_item])))"
      and sd = "''2024-01-01''" and ed = "''2024-01-31''", OF h]
  show ?thesis using h by blast
qed

section \<open>The observations of a reply\<close>


















section \<open>The table of the analysis tab\<close>







end
